theory Spec2Isabelle
  imports Complex_Main "HOL-Library.Word"
begin

unbundle bit_operations_syntax

section \<open>Floating-point values\<close>

text \<open>
  The quantities of \<^verbatim>\<open>dynamicDetection.py\<close> are IEEE-754 doubles held in numpy arrays.
  A value is a finite number, one of the two infinities, or not-a-number. Finite values
  are exact reals here: rounding and overflow of finite results are not part of the
  model, and the two zeros are one value (a division by zero takes the sign of the
  numerator). What the model keeps is which results are finite, which is what
  \<^verbatim>\<open>np.isfinite\<close> tests and what a division by zero changes.
\<close>

datatype fl = Fin real | PInf | NInf | NaN

fun isfinite :: "fl \<Rightarrow> bool" where
  "isfinite (Fin _) = True"
| "isfinite _ = False"


fun fneg :: "fl \<Rightarrow> fl" where
  "fneg (Fin a) = Fin (- a)"
| "fneg PInf = NInf"
| "fneg NInf = PInf"
| "fneg NaN = NaN"

fun fadd :: "fl \<Rightarrow> fl \<Rightarrow> fl" where
  "fadd NaN _ = NaN"
| "fadd _ NaN = NaN"
| "fadd (Fin a) (Fin b) = Fin (a + b)"
| "fadd PInf NInf = NaN"
| "fadd NInf PInf = NaN"
| "fadd PInf _ = PInf"
| "fadd _ PInf = PInf"
| "fadd NInf _ = NInf"
| "fadd _ NInf = NInf"

definition fsub :: "fl \<Rightarrow> fl \<Rightarrow> fl" where
  "fsub a b = fadd a (fneg b)"

text \<open>An infinity with the sign of a real factor; zero times infinity is not a number.\<close>

definition signed_inf :: "real \<Rightarrow> fl" where
  "signed_inf s = (if 0 < s then PInf else if s < 0 then NInf else NaN)"

fun fmul :: "fl \<Rightarrow> fl \<Rightarrow> fl" where
  "fmul NaN _ = NaN"
| "fmul _ NaN = NaN"
| "fmul (Fin a) (Fin b) = Fin (a * b)"
| "fmul (Fin a) PInf = signed_inf a"
| "fmul (Fin a) NInf = signed_inf (- a)"
| "fmul PInf (Fin b) = signed_inf b"
| "fmul NInf (Fin b) = signed_inf (- b)"
| "fmul PInf PInf = PInf"
| "fmul NInf NInf = PInf"
| "fmul PInf NInf = NInf"
| "fmul NInf PInf = NInf"

text \<open>
  Division of numpy doubles does not raise: a finite numerator over zero is an infinity
  (\<open>0/0\<close> is not a number), under numpy's default error state, which reports it on the
  Python warnings channel and goes on.
\<close>

fun fdiv :: "fl \<Rightarrow> fl \<Rightarrow> fl" where
  "fdiv NaN _ = NaN"
| "fdiv _ NaN = NaN"
| "fdiv (Fin a) (Fin b) = (if b = 0 then signed_inf a else Fin (a / b))"
| "fdiv (Fin a) PInf = Fin 0"
| "fdiv (Fin a) NInf = Fin 0"
| "fdiv PInf (Fin b) = (if 0 \<le> b then PInf else NInf)"
| "fdiv NInf (Fin b) = (if 0 \<le> b then NInf else PInf)"
| "fdiv PInf _ = NaN"
| "fdiv NInf _ = NaN"

text \<open>
  The order numpy sorts by: minus infinity, the finite values, plus infinity, and
  not-a-number last.
\<close>

fun fle :: "fl \<Rightarrow> fl \<Rightarrow> bool" where
  "fle _ NaN = True"
| "fle NaN _ = False"
| "fle NInf _ = True"
| "fle _ NInf = False"
| "fle _ PInf = True"
| "fle PInf _ = False"
| "fle (Fin a) (Fin b) = (a \<le> b)"

fun insort_fl :: "fl \<Rightarrow> fl list \<Rightarrow> fl list" where
  "insort_fl x [] = [x]"
| "insort_fl x (y # ys) = (if fle x y then x # y # ys else y # insort_fl x ys)"

fun sort_fl :: "fl list \<Rightarrow> fl list" where
  "sort_fl [] = []"
| "sort_fl (x # xs) = insort_fl x (sort_fl xs)"

section \<open>numpy statistics\<close>

text \<open>
  \<^verbatim>\<open>np.median\<close>: the middle element of the sorted data, or the mean of the two middle
  ones; not-a-number when the data holds one, and on no data at all.
\<close>

definition np_median :: "fl list \<Rightarrow> fl" where
  "np_median xs =
     (if xs = [] \<or> NaN \<in> set xs then NaN
      else let s = sort_fl xs; n = length xs
           in if odd n then s ! (n div 2)
              else fdiv (fadd (s ! (n div 2 - 1)) (s ! (n div 2))) (Fin 2))"

text \<open>
  \<^verbatim>\<open>np.percentile\<close> with its default linear interpolation: the value at the virtual
  index \<open>q/100 * (n - 1)\<close> of the sorted data, between the two neighbouring elements.
  What numpy does on no data depends on its version (older ones raise, newer ones give
  not-a-number); the model takes the second, and \<^verbatim>\<open>calculateThreshold\<close> reaches that
  case only when \<^verbatim>\<open>minNumSources\<close> is configured as zero or less.
\<close>

definition np_percentile :: "fl list \<Rightarrow> real \<Rightarrow> fl" where
  "np_percentile xs q =
     (if xs = [] \<or> NaN \<in> set xs then NaN
      else let s = sort_fl xs; n = length xs;
               h = q / 100 * real (n - 1);
               lo = nat \<lfloor>h\<rfloor>;
               hi = min (lo + 1) (n - 1);
               g = h - real lo
           in fadd (s ! lo) (fmul (fsub (s ! hi) (s ! lo)) (Fin g)))"

text \<open>Indexing an array with a boolean array keeps the elements whose flag is set.\<close>

fun bool_index :: "'a list \<Rightarrow> bool list \<Rightarrow> 'a list" where
  "bool_index (x # xs) (b # bs) = (if b then x # bool_index xs bs else bool_index xs bs)"
| "bool_index _ _ = []"


section \<open>Exposures, catalogs and collaborators\<close>

text \<open>
  An exposure is an image plane and a mask plane, both flattened to lists of pixels. A
  mask pixel is a 32-bit set of plane bits.

  Modelled from the spec: the mask has the named planes DETECTED and DETECTED_NEGATIVE.
  Their bit positions are not fixed by this repository; the values below are those of
  the image library's default plane dictionary (planes 5 and 6).
\<close>

type_synonym maskpixel = "32 word"

definition DETECTED :: maskpixel where
  "DETECTED = 32"

definition DETECTED_NEGATIVE :: maskpixel where
  "DETECTED_NEGATIVE = 64"

definition detectedBits :: "maskpixel list \<Rightarrow> maskpixel list" where
  "detectedBits m = map (\<lambda>w. w AND (DETECTED OR DETECTED_NEGATIVE)) m"

record exposure =
  image_array :: "fl list"
  mask_array :: "maskpixel list"

datatype error = AssertionError | ValueError | OverflowError | Upstream string

text \<open>
  What a run leaves behind besides the exposure: the lines it writes to the task's log,
  and the invocation of the sky sampler with the mask plane and seed it was given.
  What numpy reports on the Python warnings channel is not a line of the task's log and
  is not in this record: whether it is shown, raised or dropped depends on the error
  state and the warning filters of the interpreter, which the task does not set.
\<close>

datatype event =
    SkyObjectsRun "maskpixel list" int
  | LogWarnInsufficient nat int
  | LogInfoFactor fl fl
  | LogInfoTweak fl

record rstate =
  expo :: exposure
  events :: "event list"

record config =
  prelimThresholdFactor :: fl
  doBackgroundTweak :: bool
  minNumSources :: int
  thresholdValue :: fl
  doTempLocalBackground :: bool
  reEstimateBackground :: bool

type_synonym peak = "real \<times> real"

datatype footprint = Footprint (getPeaks: "peak list")

record source =
  getFootprint :: footprint
  centroid :: "peak option"
  coord :: "(real \<times> real) option"

text \<open>One row of the catalog after forced photometry: the columns the task reads.\<close>

record photrec =
  base_PsfFlux_instFlux :: fl
  base_PsfFlux_instFluxErr :: fl
  base_PsfFlux_area :: fl
  base_PsfFlux_flag :: bool
  base_LocalBackground_instFlux :: fl
  base_LocalBackground_flag :: bool

datatype psf = Psf real

record convolved =
  middle :: "fl list"
  sigma :: fl

datatype interp_style = CONSTANT | LINEAR | NATURAL_SPLINE
datatype undersample_style = THROW_EXCEPTION | REDUCE_INTERP_ORDER | INCREASE_NXNYSAMPLE
datatype approx_style = UNKNOWN | CHEBYSHEV

record background_mi =
  stats_image :: fl
  stats_mask :: maskpixel
  stats_variance :: fl

type_synonym bgdata =
  "background_mi \<times> interp_style \<times> undersample_style \<times> approx_style \<times> int \<times> int \<times> bool"

record results =
  positive :: "footprint list option"
  negative :: "footprint list option"
  numPos :: nat
  numNeg :: nat
  background :: "bgdata list"

text \<open>
  The methods inherited from the base detection task, the sky sampler, the forced
  measurement and the coordinate transform are collaborators: any of them may change
  the exposure it is handed, and any of them may raise. Each is a parameter of the
  model, a function from the exposure to a result or an error and the exposure it
  leaves.

  Modelled from the spec: the sampler is a pure function over its inputs (the mask
  plane and the seed) and holds no state between calls, and the measurement is a
  function of the positions and the exposure. A collaborator here is a function of its
  arguments and of the exposure, and of nothing else.

  \<^verbatim>\<open>array.sum()\<close> of numpy is a parameter too. It adds the pixels in floating point,
  in an order and a precision of its own, and its result is a function of the pixel
  values; nothing else about it is assumed.
\<close>

type_synonym 'a collab = "exposure \<Rightarrow> (error + 'a) \<times> exposure"

record collaborators =
  getPsf :: "fl option \<Rightarrow> psf collab"
  clearMask :: "unit collab"
  convolveImage :: "psf \<Rightarrow> bool \<Rightarrow> convolved collab"
  applyThreshold :: "fl list \<Rightarrow> fl \<Rightarrow> results collab"
  finalizeFootprints :: "results \<Rightarrow> fl \<Rightarrow> fl \<Rightarrow> results collab"
  skyObjects_run :: "int \<Rightarrow> (footprint list) collab"
  pixelToSky :: "peak \<Rightarrow> real \<times> real"
  skyMeasurement_run :: "source list \<Rightarrow> (photrec list) collab"
  tempWideBackground_enter :: "unit collab"
  tempWideBackground_exit :: "unit collab"
  applyTempLocalBackground :: "fl list \<Rightarrow> results \<Rightarrow> results collab"
  clearUnwantedResults :: "results \<Rightarrow> results collab"
  reEstimateBackground_run :: "bgdata list \<Rightarrow> (bgdata list) collab"
  display :: "results \<Rightarrow> fl list \<Rightarrow> unit collab"
  array_sum :: "fl list \<Rightarrow> fl"

text \<open>Sequencing: an error ends the sequence, as a raised exception does.\<close>

type_synonym 'a step = "rstate \<Rightarrow> (error + 'a) \<times> rstate"

definition call :: "'a collab \<Rightarrow> 'a step" where
  "call c s = (case c (expo s) of (r, e') \<Rightarrow> (r, s\<lparr>expo := e'\<rparr>))"

definition then_do :: "'a step \<Rightarrow> ('a \<Rightarrow> 'b step) \<Rightarrow> 'b step" where
  "then_do m f s = (case m s of (Inl e, s') \<Rightarrow> (Inl e, s') | (Inr a, s') \<Rightarrow> f a s')"

definition emit :: "event \<Rightarrow> unit step" where
  "emit ev s = (Inr (), s\<lparr>events := events s @ [ev]\<rparr>)"

definition ret :: "'a \<Rightarrow> 'a step" where
  "ret x s = (Inr x, s)"

definition raise :: "error \<Rightarrow> 'a step" where
  "raise e s = (Inl e, s)"

section \<open>calculateThreshold\<close>

record correction =
  multiplicative :: fl
  additive :: fl

text \<open>\<^verbatim>\<open>skyFootprints.makeSources(catalog)\<close>: one source per footprint.\<close>

definition makeSources :: "footprint list \<Rightarrow> source list" where
  "makeSources fps = map (\<lambda>fp. \<lparr>getFootprint = fp, centroid = None, coord = None\<rparr>) fps"

text \<open>
  The loop over the catalog (lines 111 to 115): the assertion on the number of peaks
  comes first, so the first source whose footprint has no peak or several ends the
  call.
\<close>

fun setCentroids :: "(peak \<Rightarrow> real \<times> real) \<Rightarrow> source list \<Rightarrow> error + source list" where
  "setCentroids w [] = Inr []"
| "setCentroids w (src # rest) =
     (let peaks = getPeaks (getFootprint src)
      in if length peaks \<noteq> 1 then Inl AssertionError
         else (case setCentroids w rest of
                 Inl e \<Rightarrow> Inl e
               | Inr rest' \<Rightarrow>
                   Inr (src\<lparr>centroid := Some (peaks ! 0), coord := Some (w (peaks ! 0))\<rparr> # rest')))"

definition good_flag :: "photrec \<Rightarrow> bool" where
  "good_flag r \<longleftrightarrow>
     \<not> base_PsfFlux_flag r \<and> \<not> base_LocalBackground_flag r \<and>
     isfinite (base_PsfFlux_instFlux r) \<and> isfinite (base_PsfFlux_area r) \<and>
     isfinite (base_LocalBackground_instFlux r)"

definition calculateThreshold ::
  "collaborators \<Rightarrow> config \<Rightarrow> int \<Rightarrow> fl option \<Rightarrow> correction step" where
  "calculateThreshold c cfg seed sigma_arg =
     then_do (\<lambda>s. emit (SkyObjectsRun (mask_array (expo s)) seed) s) (\<lambda>_.
     then_do (call (skyObjects_run c seed)) (\<lambda>fp.
     case setCentroids (pixelToSky c) (makeSources fp) of
       Inl e \<Rightarrow> raise e
     | Inr catalog \<Rightarrow>
     then_do (call (skyMeasurement_run c catalog)) (\<lambda>rows.
       let fluxes = map base_PsfFlux_instFlux rows;
           area = map base_PsfFlux_area rows;
           bg = map base_LocalBackground_instFlux rows;
           good = map good_flag rows;
           good_sum = length (filter id good)
       in if int good_sum < minNumSources cfg then
            then_do (emit (LogWarnInsufficient good_sum (minNumSources cfg))) (\<lambda>_.
            ret \<lparr>multiplicative = Fin 1, additive = Fin 0\<rparr>)
          else
            let bgMedian = np_median (bool_index (map2 fdiv fluxes area) good);
                sub = bool_index (map2 fsub fluxes (map2 fmul bg area)) good;
                lq = np_percentile sub 25;
                uq = np_percentile sub 75;
                stdevMeas = fmul (Fin 0.741) (fsub uq lq);
                medianError = np_median (bool_index (map base_PsfFlux_instFluxErr rows) good)
            in ret \<lparr>multiplicative = fdiv medianError stdevMeas, additive = bgMedian\<rparr>)))"

text \<open>
  The estimate as the spec words it (its section 4.3, steps 1 and 3 to 6), for
  comparison with the code: the robust standard deviation is 0.7413 times the
  interquartile range of the background-subtracted fluxes.
\<close>

definition robust_stdev_spec :: "fl list \<Rightarrow> fl" where
  "robust_stdev_spec xs = fmul (Fin 0.7413) (fsub (np_percentile xs 75) (np_percentile xs 25))"

definition estimate_spec :: "photrec list \<Rightarrow> correction" where
  "estimate_spec records =
     (let filtered = filter good_flag records;
          subtracted = map (\<lambda>r. fsub (base_PsfFlux_instFlux r)
                         (fmul (base_LocalBackground_instFlux r) (base_PsfFlux_area r))) filtered
      in \<lparr>multiplicative =
             fdiv (np_median (map base_PsfFlux_instFluxErr filtered)) (robust_stdev_spec subtracted),
           additive =
             np_median (map (\<lambda>r. fdiv (base_PsfFlux_instFlux r) (base_PsfFlux_area r)) filtered)\<rparr>)"

section \<open>detectFootprints\<close>

text \<open>
  \<^verbatim>\<open>int(x)\<close> on a float truncates towards zero, and raises on a value that is not
  finite: \<^verbatim>\<open>ValueError\<close> on not-a-number, \<^verbatim>\<open>OverflowError\<close> on an infinity.
\<close>

definition py_int :: "fl \<Rightarrow> error + int" where
  "py_int x =
     (case x of
        Fin r \<Rightarrow> Inr (if 0 \<le> r then \<lfloor>r\<rfloor> else \<lceil>r\<rceil>)
      | NaN \<Rightarrow> Inl ValueError
      | _ \<Rightarrow> Inl OverflowError)"

text \<open>
  Line 192: the seed, with the sum of the pixel array as numpy computes it. Python's
  \<^verbatim>\<open>%\<close> takes the sign of the divisor, as \<open>mod\<close> does.
\<close>

definition detectFootprints_seed :: "(fl list \<Rightarrow> fl) \<Rightarrow> int option \<Rightarrow> fl list \<Rightarrow> error + int" where
  "detectFootprints_seed pixel_sum expId img =
     (case expId of
        Some e \<Rightarrow> Inr (e mod (2 ^ 31 - 1))
      | None \<Rightarrow>
          (case py_int (pixel_sum img) of
             Inl err \<Rightarrow> Inl err
           | Inr v \<Rightarrow> Inr (v mod (2 ^ 31 - 1))))"

text \<open>
  Lines 199 to 213: the copy of the mask, the \<^verbatim>\<open>try\<close> block and its \<^verbatim>\<open>finally\<close>
  clause. The block is the preliminary detection (lines 201 to 204) followed by the
  threshold calculation and its log line (lines 206 to 210). The \<^verbatim>\<open>finally\<close> clause
  runs whether the block returned or raised, and then the result or the error goes on.
\<close>

definition preliminary_detect ::
  "collaborators \<Rightarrow> config \<Rightarrow> psf \<Rightarrow> bool \<Rightarrow> convolved step" where
  "preliminary_detect c cfg p doSmooth =
     then_do (call (clearMask c)) (\<lambda>_.
     then_do (call (convolveImage c p doSmooth)) (\<lambda>convolveResults.
     then_do (call (applyThreshold c (middle convolveResults) (prelimThresholdFactor cfg)))
       (\<lambda>tweakDetResults.
     then_do (call (finalizeFootprints c tweakDetResults (sigma convolveResults)
                      (prelimThresholdFactor cfg))) (\<lambda>_.
     ret convolveResults))))"

definition preliminary_body ::
  "collaborators \<Rightarrow> config \<Rightarrow> psf \<Rightarrow> bool \<Rightarrow> int \<Rightarrow> correction step" where
  "preliminary_body c cfg p doSmooth seed =
     then_do (preliminary_detect c cfg p doSmooth) (\<lambda>convolveResults.
     then_do (calculateThreshold c cfg seed (Some (sigma convolveResults))) (\<lambda>threshResults.
     then_do (emit (LogInfoFactor (multiplicative threshResults)
                      (fmul (multiplicative threshResults) (thresholdValue cfg)))) (\<lambda>_.
     ret threshResults)))"

definition preliminary_pass ::
  "collaborators \<Rightarrow> config \<Rightarrow> psf \<Rightarrow> bool \<Rightarrow> int \<Rightarrow> correction step" where
  "preliminary_pass c cfg p doSmooth seed s =
     (let originalMask = mask_array (expo s)
      in case preliminary_body c cfg p doSmooth seed s of
           (r, s') \<Rightarrow> (r, s'\<lparr>expo := (expo s')\<lparr>mask_array := originalMask\<rparr>\<rparr>))"

text \<open>\<^verbatim>\<open>tweakBackground\<close> (lines 246 to 272). It raises nothing of its own.\<close>

definition tweakBackground ::
  "fl \<Rightarrow> bgdata list option \<Rightarrow> rstate \<Rightarrow> (background_mi \<times> bgdata list option) \<times> rstate" where
  "tweakBackground bgLevel bgList s =
     (let s1 = s\<lparr>events := events s @ [LogInfoTweak bgLevel]\<rparr>;
          s2 = s1\<lparr>expo := (expo s1)\<lparr>image_array :=
                  map (\<lambda>v. fsub v bgLevel) (image_array (expo s1))\<rparr>\<rparr>;
          bg = \<lparr>stats_image = bgLevel, stats_mask = 0, stats_variance = bgLevel\<rparr>;
          bgData = (bg, LINEAR, REDUCE_INTERP_ORDER, UNKNOWN, 0, 0, False)
      in ((bg, (case bgList of None \<Rightarrow> None | Some l \<Rightarrow> Some (l @ [bgData]))), s2))"

text \<open>
  Lines 215 to 217: the run's background list starts empty, and \<^verbatim>\<open>tweakBackground\<close>
  is called with it when the configuration says so.
\<close>

definition background_tweak :: "config \<Rightarrow> fl \<Rightarrow> (bgdata list) step" where
  "background_tweak cfg bgLevel s =
     (let background = [] :: bgdata list
      in if doBackgroundTweak cfg then
           (case tweakBackground bgLevel (Some background) s of
              ((bg, bgList), s') \<Rightarrow>
                (Inr (case bgList of None \<Rightarrow> background | Some l \<Rightarrow> l), s'))
         else (Inr background, s))"

text \<open>
  Lines 219 to 244: the final pass. The \<^verbatim>\<open>with\<close> block leaves its context whether its
  body returned or raised.

  Modelled from the spec: the temporary wide background is applied around this phase
  and reverted afterwards; its context manager is code of the base task, not of this
  file, and is split here into what it does on entry and on exit.
\<close>

definition final_body ::
  "collaborators \<Rightarrow> config \<Rightarrow> psf \<Rightarrow> bool \<Rightarrow> fl \<Rightarrow> bgdata list \<Rightarrow> (results \<times> fl list) step" where
  "final_body c cfg p doSmooth factor bgl =
     then_do (call (convolveImage c p doSmooth)) (\<lambda>convolveResults.
     then_do (call (applyThreshold c (middle convolveResults) factor)) (\<lambda>res0.
     then_do (if doTempLocalBackground cfg
              then call (applyTempLocalBackground c (middle convolveResults)
                           (res0\<lparr>background := bgl\<rparr>))
              else ret (res0\<lparr>background := bgl\<rparr>)) (\<lambda>res1.
     then_do (call (finalizeFootprints c res1 (sigma convolveResults) factor)) (\<lambda>res2.
     then_do (call (clearUnwantedResults c res2)) (\<lambda>res3.
     ret (res3, middle convolveResults))))))"

definition final_pass ::
  "collaborators \<Rightarrow> config \<Rightarrow> psf \<Rightarrow> bool \<Rightarrow> bool \<Rightarrow> fl \<Rightarrow> bgdata list \<Rightarrow> results step" where
  "final_pass c cfg p doSmooth clearMask_arg factor bgl =
     then_do (if clearMask_arg then call (clearMask c) else ret ()) (\<lambda>_.
     then_do (call (tempWideBackground_enter c)) (\<lambda>_.
     then_do (\<lambda>s. case final_body c cfg p doSmooth factor bgl s of
                    (r, s') \<Rightarrow>
                      (case call (tempWideBackground_exit c) s' of
                         (Inl e, s'') \<Rightarrow> (Inl e, s'')
                       | (Inr _, s'') \<Rightarrow> (r, s''))) (\<lambda>(res, mid).
     then_do (if reEstimateBackground cfg
              then then_do (call (reEstimateBackground_run c (background res)))
                     (\<lambda>bl. ret (res\<lparr>background := bl\<rparr>))
              else ret res) (\<lambda>res'.
     then_do (call (display c res' mid)) (\<lambda>_.
     ret res')))))"

definition detectFootprints ::
  "collaborators \<Rightarrow> config \<Rightarrow> bool \<Rightarrow> fl option \<Rightarrow> bool \<Rightarrow> int option \<Rightarrow> results step" where
  "detectFootprints c cfg doSmooth sigma_arg clearMask_arg expId =
     then_do (call (getPsf c sigma_arg)) (\<lambda>p.
     then_do (\<lambda>s. case detectFootprints_seed (array_sum c) expId (image_array (expo s)) of
                    Inl e \<Rightarrow> raise e s
                  | Inr seed \<Rightarrow> ret seed s) (\<lambda>seed.
     then_do (preliminary_pass c cfg p doSmooth seed) (\<lambda>threshResults.
     then_do (background_tweak cfg (additive threshResults)) (\<lambda>bgl.
     final_pass c cfg p doSmooth clearMask_arg (multiplicative threshResults) bgl))))"

section \<open>The reference catalog conversion utility\<close>

text \<open>
  \<^verbatim>\<open>str.endswith\<close>, and \<^verbatim>\<open>str.strip(chars)\<close>, which removes from both ends of the string
  every leading and trailing character that occurs in \<^verbatim>\<open>chars\<close>.
\<close>

definition endswith :: "string \<Rightarrow> string \<Rightarrow> bool" where
  "endswith s suf \<longleftrightarrow> length suf \<le> length s \<and> drop (length s - length suf) s = suf"

definition py_strip :: "string \<Rightarrow> string \<Rightarrow> string" where
  "py_strip s chars =
     rev (dropWhile (\<lambda>ch. ch \<in> set chars) (rev (dropWhile (\<lambda>ch. ch \<in> set chars) s)))"

record field =
  getName :: string
  getDoc :: string
  getUnits :: string

text \<open>
  \<^verbatim>\<open>is_flux_field\<close> is a closure: its units test reads the enclosing loop's variable
  \<^verbatim>\<open>oldUnits\<close>, not its own second parameter. The loop variable is the first argument
  here.
\<close>

definition is_flux_field :: "string \<Rightarrow> string \<Rightarrow> string \<Rightarrow> bool" where
  "is_flux_field oldUnits name units =
     (let unitsCheck = (oldUnits = ''Jy'' \<or> oldUnits = [] \<or> oldUnits = ''?'');
          isFlux = endswith name ''_flux'';
          isFluxSigma = endswith name ''_fluxSigma'';
          isFluxErr = endswith name ''_fluxErr''
      in (isFlux \<or> isFluxSigma \<or> isFluxErr) \<and> unitsCheck)"

text \<open>Lines 76 to 79: the name of the new field.\<close>

definition new_name :: "string \<Rightarrow> string" where
  "new_name oldName =
     (if endswith oldName ''_fluxSigma''
      then py_strip oldName ''_fluxSigma'' @ ''_fluxErr''
      else oldName)"

text \<open>
  The renaming the spec asks for instead: only the trailing \<^verbatim>\<open>_fluxSigma\<close> is replaced
  by \<^verbatim>\<open>_fluxErr\<close>.
\<close>

definition exact_suffix_replacement :: "string \<Rightarrow> string" where
  "exact_suffix_replacement oldName =
     take (length oldName - length ''_fluxSigma'') oldName @ ''_fluxErr''"

text \<open>
  Both forms of \<^verbatim>\<open>mapper.addMapping\<close> (lines 81 and 84) add a field to the mapper's output
  schema, and a schema of the table library refuses a field whose name it already has:
  the call raises, \<^verbatim>\<open>process_one\<close> is left through the exception, and nothing is
  written.
\<close>

datatype schema_error = FieldAlreadyPresent string

definition addField :: "field list \<Rightarrow> field \<Rightarrow> schema_error + field list" where
  "addField schema f =
     (if getName f \<in> set (map getName schema) then Inl (FieldAlreadyPresent (getName f))
      else Inr (schema @ [f]))"

text \<open>
  The loop over the input schema (lines 69 to 84). Its second and third arguments are
  the output schema and the list \<^verbatim>\<open>mapped_fluxes\<close> as they stand when the loop reaches
  the fields of the first argument. The fields of the minimal schema, which line 66
  maps before the loop, are fields of the catalog as well: they are no fluxes, they
  keep their names, and they are met here with the other fields, in the schema's
  order.
\<close>

fun map_schema ::
  "field list \<Rightarrow> field list \<Rightarrow> (string \<times> string) list
     \<Rightarrow> schema_error + field list \<times> (string \<times> string) list" where
  "map_schema [] out mapped_fluxes = Inr (out, mapped_fluxes)"
| "map_schema (f # fs) out mapped_fluxes =
     (let oldName = getName f; oldUnits = getUnits f
      in if is_flux_field oldUnits oldName oldUnits
         then (case addField out
                      \<lparr>getName = new_name oldName, getDoc = getDoc f, getUnits = ''nJy''\<rparr> of
                 Inl e \<Rightarrow> Inl e
               | Inr out' \<Rightarrow> map_schema fs out' (mapped_fluxes @ [(oldName, oldUnits)]))
         else (case addField out f of
                 Inl e \<Rightarrow> Inl e
               | Inr out' \<Rightarrow> map_schema fs out' mapped_fluxes))"

datatype status =
    Reading string
  | NoFluxes
  | FoundFluxFields "(string \<times> string) list"
  | Wrote string

text \<open>Lines 97 to 100: the scaling of the output columns.\<close>

definition scale_column :: "field \<times> fl list \<Rightarrow> field \<times> fl list" where
  "scale_column col =
     (let name = getName (fst col)
      in if endswith name ''_flux'' \<or> endswith name ''_fluxErr''
         then (fst col, map (\<lambda>v. fmul v (Fin 1000000000)) (snd col))
         else col)"

text \<open>
  \<^verbatim>\<open>process_one\<close>. A catalog is its columns, each with its schema field. The result
  is the error of the schema when the loop raised, and otherwise the status lines and
  the catalog written over the file, if one was written.
\<close>

definition process_one ::
  "string \<Rightarrow> (field \<times> fl list) list \<Rightarrow> bool
     \<Rightarrow> schema_error + status list \<times> (field \<times> fl list) list option" where
  "process_one filename catalog write =
     (let status0 = [Reading filename]
      in case map_schema (map fst catalog) [] [] of
           Inl e \<Rightarrow> Inl e
         | Inr (newSchema, mapped_fluxes) \<Rightarrow>
             if mapped_fluxes = [] then Inr (status0 @ [NoFluxes], None)
             else
               let status1 = status0 @ [FoundFluxFields mapped_fluxes]
               in if write then
                    let output = zip newSchema (map snd catalog)
                    in Inr (status1 @ [Wrote filename], Some (map scale_column output))
                  else Inr (status1, None))"

section \<open>A concrete setting for examples\<close>

text \<open>
  Modelled from the spec: \<^verbatim>\<open>clearMask\<close> of the base task clears the DETECTED and
  DETECTED_NEGATIVE planes of the mask and leaves the other planes alone.
\<close>

definition clearMask_planes :: "unit collab" where
  "clearMask_planes e =
     (Inr (), e\<lparr>mask_array :=
                  map (\<lambda>w. w AND NOT (DETECTED OR DETECTED_NEGATIVE)) (mask_array e)\<rparr>)"

definition quiet :: "'a \<Rightarrow> 'a collab" where
  "quiet x e = (Inr x, e)"


definition no_detections :: results where
  "no_detections =
     \<lparr>positive = None, negative = None, numPos = 0, numNeg = 0, background = []\<rparr>"

text \<open>
  A sum without rounding. It is the sum numpy returns on pixel values whose partial sums
  are all representable, as those of the examples are.
\<close>

definition exact_sum :: "fl list \<Rightarrow> fl" where
  "exact_sum xs = foldl fadd (Fin 0) xs"

text \<open>
  Collaborators for a flat image: no smoothing, no detection above threshold, a sampler
  that returns the given footprints and a measurement that returns the given rows.
\<close>

definition flat_sky :: "footprint list \<Rightarrow> photrec list \<Rightarrow> collaborators" where
  "flat_sky fps rows =
     \<lparr>getPsf = (\<lambda>_. quiet (Psf 2)),
      clearMask = clearMask_planes,
      convolveImage = (\<lambda>_ _ e. (Inr \<lparr>middle = image_array e, sigma = Fin 2\<rparr>, e)),
      applyThreshold = (\<lambda>_ _. quiet no_detections),
      finalizeFootprints = (\<lambda>r _ _. quiet r),
      skyObjects_run = (\<lambda>_. quiet fps),
      pixelToSky = (\<lambda>xy. xy),
      skyMeasurement_run = (\<lambda>_. quiet rows),
      tempWideBackground_enter = quiet (),
      tempWideBackground_exit = quiet (),
      applyTempLocalBackground = (\<lambda>_ r. quiet r),
      clearUnwantedResults = (\<lambda>r. quiet r),
      reEstimateBackground_run = (\<lambda>bl. quiet bl),
      display = (\<lambda>_ _. quiet ()),
      array_sum = exact_sum\<rparr>"

definition default_config :: config where
  "default_config =
     \<lparr>prelimThresholdFactor = Fin 0.5, doBackgroundTweak = True, minNumSources = 10,
      thresholdValue = Fin 5, doTempLocalBackground = True, reEstimateBackground = False\<rparr>"

definition sky_row :: "real \<Rightarrow> real \<Rightarrow> photrec" where
  "sky_row flux err =
     \<lparr>base_PsfFlux_instFlux = Fin flux, base_PsfFlux_instFluxErr = Fin err,
      base_PsfFlux_area = Fin 1, base_PsfFlux_flag = False,
      base_LocalBackground_instFlux = Fin 0, base_LocalBackground_flag = False\<rparr>"

definition flagged_row :: photrec where
  "flagged_row = (sky_row 3 1)\<lparr>base_PsfFlux_flag := True\<rparr>"

definition two_peaks :: "footprint list" where
  "two_peaks = [Footprint [(1, 1)], Footprint [(2, 2)]]"

definition two_sources :: "source list" where
  "two_sources =
     [\<lparr>getFootprint = Footprint [(1, 1)], centroid = Some (1, 1), coord = Some (1, 1)\<rparr>,
      \<lparr>getFootprint = Footprint [(2, 2)], centroid = Some (2, 2), coord = Some (2, 2)\<rparr>]"

definition one_pixel :: rstate where
  "one_pixel = \<lparr>expo = \<lparr>image_array = [Fin 0], mask_array = [0]\<rparr>, events = []\<rparr>"

text \<open>
  A finalization of footprints that sets the DETECTED plane of the first pixel, as a
  detection on that pixel would, and the collaborators of a sky with that detection.
\<close>

definition mark_first :: "results \<Rightarrow> results collab" where
  "mark_first r e =
     (Inr r, e\<lparr>mask_array := (case mask_array e of [] \<Rightarrow> [] | w # ws \<Rightarrow> (w OR DETECTED) # ws)\<rparr>)"

definition bright_sky :: "footprint list \<Rightarrow> photrec list \<Rightarrow> collaborators" where
  "bright_sky fps rows = (flat_sky fps rows)\<lparr>finalizeFootprints := (\<lambda>r _ _. mark_first r)\<rparr>"

text \<open>
  An exposure of two pixels that arrives with DETECTED_NEGATIVE set on the first and
  another plane set on the second.
\<close>

definition two_pixels :: rstate where
  "two_pixels = \<lparr>expo = \<lparr>image_array = [Fin 2.5, Fin 1], mask_array = [64, 1]\<rparr>, events = []\<rparr>"




text \<open>
  An old reference catalog of two rows: a flux column with no units, a flux column in
  units the utility does not convert, and a coordinate column.
\<close>

definition old_flux_catalog :: "(field \<times> fl list) list" where
  "old_flux_catalog =
     [(\<lparr>getName = ''g_flux'', getDoc = ''g'', getUnits = []\<rparr>, [Fin 1, Fin 2]),
      (\<lparr>getName = ''r_flux'', getDoc = ''r'', getUnits = ''mJy''\<rparr>, [Fin 3, Fin 4]),
      (\<lparr>getName = ''coord_ra'', getDoc = ''ra'', getUnits = ''rad''\<rparr>, [Fin 5, Fin 6])]"

text \<open>
  An old reference catalog with the sigma fields of two filters whose letters both
  occur in \<^verbatim>\<open>_fluxSigma\<close>.
\<close>

definition sigma_catalog :: "(field \<times> fl list) list" where
  "sigma_catalog =
     [(\<lparr>getName = ''g_fluxSigma'', getDoc = ''g'', getUnits = []\<rparr>, [Fin 1]),
      (\<lparr>getName = ''i_fluxSigma'', getDoc = ''i'', getUnits = []\<rparr>, [Fin 2])]"

text \<open>
  A run appends events to the record and never removes one; \<open>appends_only P f\<close> says
  that every event the step \<open>f\<close> appends satisfies \<open>P\<close>.
\<close>

definition appends_only :: "(event \<Rightarrow> bool) \<Rightarrow> 'a step \<Rightarrow> bool" where
  "appends_only P f \<longleftrightarrow>
     (\<forall>s. \<exists>evs. events (snd (f s)) = events s @ evs \<and> list_all P evs)"

definition seed_is :: "int \<Rightarrow> event \<Rightarrow> bool" where
  "seed_is sd ev = (case ev of SkyObjectsRun m sd' \<Rightarrow> sd' = sd | _ \<Rightarrow> True)"

section \<open>Properties of the arithmetic and of the statistics\<close>

lemma bool_index_map: "bool_index (map f rs) (map p rs) = map f (filter p rs)"
  by (induction rs) simp_all

lemma bool_index_map2:
  "bool_index (map2 f (map g rs) (map h rs)) (map p rs) = map (\<lambda>r. f (g r) (h r)) (filter p rs)"
  by (induction rs) simp_all

lemma bool_index_sub:
  "bool_index (map2 fsub (map a rs) (map2 fmul (map b rs) (map d rs))) (map p rs)
     = map (\<lambda>r. fsub (a r) (fmul (b r) (d r))) (filter p rs)"
  by (induction rs) simp_all

lemma length_filter_id_map: "length (filter id (map p xs)) = length (filter p xs)"
  by (induction xs) simp_all


lemma np_median_pair: "np_median [Fin a, Fin b] = Fin ((a + b) / 2)"
  by (simp add: np_median_def add.commute)

lemma np_percentile_pair:
  "a \<le> b \<Longrightarrow> np_percentile [Fin a, Fin b] 25 = Fin (a + (b - a) / 4) \<and>
     np_percentile [Fin a, Fin b] 75 = Fin (a + (b - a) * 3 / 4)"
  by (simp add: np_percentile_def fsub_def)


section \<open>Properties of calculateThreshold\<close>

subsection \<open>The catalog of sky sources\<close>

lemma setCentroids_ok:
  "\<forall>fp\<in>set fps. length (getPeaks fp) = 1 \<Longrightarrow>
   setCentroids w (makeSources fps) =
     Inr (map (\<lambda>fp. \<lparr>getFootprint = fp, centroid = Some (getPeaks fp ! 0),
                      coord = Some (w (getPeaks fp ! 0))\<rparr>) fps)"
  by (induction fps) (simp_all add: makeSources_def Let_def)

lemma setCentroids_bad:
  "\<exists>fp\<in>set fps. length (getPeaks fp) \<noteq> 1 \<Longrightarrow>
   setCentroids w (makeSources fps) = Inl AssertionError"
proof (induction fps)
  case Nil
  then show ?case by simp
next
  case (Cons fp fps)
  show ?case
  proof (cases "length (getPeaks fp) = 1")
    case True
    with Cons.prems have "\<exists>fp\<in>set fps. length (getPeaks fp) \<noteq> 1" by auto
    then have "setCentroids w (makeSources fps) = Inl AssertionError" by (rule Cons.IH)
    with True show ?thesis by (simp add: makeSources_def Let_def)
  next
    case False
    then show ?thesis by (simp add: makeSources_def Let_def)
  qed
qed

lemma flat_sky_sky: "skyObjects_run (flat_sky fps rows) seed e = (Inr fps, e)"
  by (simp add: flat_sky_def quiet_def)

lemma flat_sky_meas: "skyMeasurement_run (flat_sky fps rows) cat e = (Inr rows, e)"
  by (simp add: flat_sky_def quiet_def)

lemma flat_sky_two:
  "setCentroids (pixelToSky (flat_sky two_peaks rows)) (makeSources two_peaks) = Inr two_sources"
  by (simp add: flat_sky_def makeSources_def two_peaks_def two_sources_def)

lemma good_sky_row: "good_flag (sky_row f e)"
  by (simp add: good_flag_def sky_row_def)

text \<open>
  C9. \<^verbatim>\<open>calculateThreshold\<close> asserts that every sampled footprint has exactly one
  peak: when the sampler returns a footprint with no peak or with several, the call
  ends in an assertion error, and the forced measurement is never run (the exposure is
  as the sampler left it and nothing is logged).
\<close>

theorem calculateThreshold_asserts_one_peak:
  assumes sky: "skyObjects_run c seed (expo s) = (Inr fps, e1)"
    and bad: "\<exists>fp\<in>set fps. length (getPeaks fp) \<noteq> 1"
  shows "calculateThreshold c cfg seed sg s =
           (Inl AssertionError,
            \<lparr>expo = e1, events = events s @ [SkyObjectsRun (mask_array (expo s)) seed]\<rparr>)"
  using sky setCentroids_bad [OF bad, of "pixelToSky c"]
  by (simp add: calculateThreshold_def then_do_def emit_def call_def raise_def)

theorem calculateThreshold_asserts_one_peak_witness:
  "calculateThreshold (flat_sky [Footprint [(1, 1)], Footprint [(2, 2), (3, 3)], Footprint []] [])
      default_config 7 None \<lparr>expo = \<lparr>image_array = [Fin 0], mask_array = [0]\<rparr>, events = []\<rparr>
   = (Inl AssertionError,
      \<lparr>expo = \<lparr>image_array = [Fin 0], mask_array = [0]\<rparr>, events = [SkyObjectsRun [0] 7]\<rparr>)"
proof -
  let ?fps = "[Footprint [(1, 1)], Footprint [(2, 2), (3, 3)], Footprint []]"
  let ?e = "\<lparr>image_array = [Fin 0], mask_array = [0]\<rparr>"
  have sky: "skyObjects_run (flat_sky ?fps []) 7 (expo \<lparr>expo = ?e, events = []\<rparr>) = (Inr ?fps, ?e)"
    by (simp add: flat_sky_def quiet_def)
  have bad: "\<exists>fp\<in>set ?fps. length (getPeaks fp) \<noteq> 1"
    by simp
  show ?thesis
    using calculateThreshold_asserts_one_peak [OF sky bad, of default_config None]
    by simp
qed

subsection \<open>The estimate\<close>

text \<open>
  Once the sampler, the loop over the catalog and the forced measurement have gone
  through, the result depends on the measured rows alone: the boolean-array code of
  lines 121 to 138 computes over the rows that pass the filter.
\<close>

lemma calculateThreshold_after_measurement:
  assumes sky: "skyObjects_run c seed (expo s) = (Inr fps, e1)"
    and cat: "setCentroids (pixelToSky c) (makeSources fps) = Inr catalog"
    and meas: "skyMeasurement_run c catalog e1 = (Inr rows, e2)"
  shows "calculateThreshold c cfg seed sg s =
      (let F = filter good_flag rows;
           B = map (\<lambda>r. fsub (base_PsfFlux_instFlux r)
                      (fmul (base_LocalBackground_instFlux r) (base_PsfFlux_area r))) F;
           evs = events s @ [SkyObjectsRun (mask_array (expo s)) seed]
       in if int (length F) < minNumSources cfg
          then (Inr \<lparr>multiplicative = Fin 1, additive = Fin 0\<rparr>,
                \<lparr>expo = e2, events = evs @ [LogWarnInsufficient (length F) (minNumSources cfg)]\<rparr>)
          else (Inr \<lparr>multiplicative =
                       fdiv (np_median (map base_PsfFlux_instFluxErr F))
                            (fmul (Fin 0.741) (fsub (np_percentile B 75) (np_percentile B 25))),
                     additive = np_median (map (\<lambda>r. fdiv (base_PsfFlux_instFlux r) (base_PsfFlux_area r)) F)\<rparr>,
                \<lparr>expo = e2, events = evs\<rparr>))"
  using sky cat meas
  by (simp add: calculateThreshold_def then_do_def emit_def call_def ret_def Let_def
      length_filter_id_map bool_index_map bool_index_map2 bool_index_sub)

text \<open>
  C1, as the code has it. When at least \<^verbatim>\<open>minNumSources\<close> rows pass the filter, the
  additive term is the median of flux/area over the filtered rows, and the
  multiplicative term is the median flux uncertainty over the filtered rows divided by
  the robust standard deviation, which the code computes as 0.741 times the
  interquartile range of \<open>flux - background * area\<close> over the filtered rows. Nothing is
  logged.
\<close>

theorem calculateThreshold_estimate:
  assumes sky: "skyObjects_run c seed (expo s) = (Inr fps, e1)"
    and cat: "setCentroids (pixelToSky c) (makeSources fps) = Inr catalog"
    and meas: "skyMeasurement_run c catalog e1 = (Inr rows, e2)"
    and enough: "minNumSources cfg \<le> int (length (filter good_flag rows))"
  shows "calculateThreshold c cfg seed sg s =
      (let F = filter good_flag rows;
           B = map (\<lambda>r. fsub (base_PsfFlux_instFlux r)
                      (fmul (base_LocalBackground_instFlux r) (base_PsfFlux_area r))) F
       in (Inr \<lparr>multiplicative =
                   fdiv (np_median (map base_PsfFlux_instFluxErr F))
                        (fmul (Fin 0.741) (fsub (np_percentile B 75) (np_percentile B 25))),
                 additive =
                   np_median (map (\<lambda>r. fdiv (base_PsfFlux_instFlux r) (base_PsfFlux_area r)) F)\<rparr>,
           \<lparr>expo = e2, events = events s @ [SkyObjectsRun (mask_array (expo s)) seed]\<rparr>))"
  using enough by (simp add: calculateThreshold_after_measurement [OF sky cat meas] Let_def)

text \<open>
  Two sky sources with fluxes 0 and 4, unit area, no local background and uncertainty
  1: the quartiles are 1 and 3, so the factor is \<open>1 / (0.741 * 2)\<close>.
\<close>

theorem calculateThreshold_estimate_witness:
  "calculateThreshold (flat_sky two_peaks [sky_row 0 1, sky_row 4 1])
      (default_config\<lparr>minNumSources := 2\<rparr>) 7 None one_pixel
   = (Inr \<lparr>multiplicative = Fin (500 / 741), additive = Fin 2\<rparr>,
      one_pixel\<lparr>events := [SkyObjectsRun [0] 7]\<rparr>)"
proof -
  let ?rows = "[sky_row 0 1, sky_row 4 1]"
  have enough: "minNumSources (default_config\<lparr>minNumSources := 2\<rparr>)
                  \<le> int (length (filter good_flag ?rows))"
    by (simp add: good_sky_row)
  have p: "np_percentile [Fin 0, Fin 4] 25 = Fin 1" "np_percentile [Fin 0, Fin 4] 75 = Fin 3"
    using np_percentile_pair [of 0 4] by simp_all
  show ?thesis
    using calculateThreshold_estimate [OF flat_sky_sky flat_sky_two flat_sky_meas enough,
        where seed = 7 and s = one_pixel and sg = None]
    by (simp add: good_flag_def sky_row_def p np_median_pair fsub_def one_pixel_def)
qed

text \<open>
  On the same two sources the estimate worded by the spec, with the constant 0.7413,
  has the factor \<open>1 / (0.7413 * 2)\<close>: the code does not return it.
\<close>

theorem calculateThreshold_not_spec_constant:
  "fst (calculateThreshold (flat_sky two_peaks [sky_row 0 1, sky_row 4 1])
          (default_config\<lparr>minNumSources := 2\<rparr>) 7 None one_pixel)
   \<noteq> Inr (estimate_spec [sky_row 0 1, sky_row 4 1])"
proof -
  have p: "np_percentile [Fin 0, Fin 4] 25 = Fin 1" "np_percentile [Fin 0, Fin 4] 75 = Fin 3"
    using np_percentile_pair [of 0 4] by simp_all
  have spec: "estimate_spec [sky_row 0 1, sky_row 4 1]
                = \<lparr>multiplicative = Fin (5000 / 7413), additive = Fin 2\<rparr>"
    by (simp add: estimate_spec_def robust_stdev_spec_def good_flag_def sky_row_def p
        np_median_pair fsub_def)
  have code: "fst (calculateThreshold (flat_sky two_peaks [sky_row 0 1, sky_row 4 1])
          (default_config\<lparr>minNumSources := 2\<rparr>) 7 None one_pixel)
        = Inr \<lparr>multiplicative = Fin (500 / 741), additive = Fin 2\<rparr>"
    by (simp add: calculateThreshold_after_measurement [OF flat_sky_sky flat_sky_two flat_sky_meas]
        good_flag_def sky_row_def p np_median_pair fsub_def)
  show ?thesis
    by (simp add: spec code)
qed

text \<open>
  C2. When fewer than \<^verbatim>\<open>minNumSources\<close> rows pass the filter (no row at all, or every
  row flagged, among the cases), \<^verbatim>\<open>calculateThreshold\<close> does not raise: it logs the
  warning with the two counts and returns the identity correction.
\<close>

theorem calculateThreshold_insufficient:
  assumes sky: "skyObjects_run c seed (expo s) = (Inr fps, e1)"
    and cat: "setCentroids (pixelToSky c) (makeSources fps) = Inr catalog"
    and meas: "skyMeasurement_run c catalog e1 = (Inr rows, e2)"
    and few: "int (length (filter good_flag rows)) < minNumSources cfg"
  shows "calculateThreshold c cfg seed sg s =
           (Inr \<lparr>multiplicative = Fin 1, additive = Fin 0\<rparr>,
            \<lparr>expo = e2,
             events = events s @ [SkyObjectsRun (mask_array (expo s)) seed,
                        LogWarnInsufficient (length (filter good_flag rows)) (minNumSources cfg)]\<rparr>)"
  using few by (simp add: calculateThreshold_after_measurement [OF sky cat meas] Let_def)

text \<open>Five usable sky sources and a flagged one, with the default minimum of ten.\<close>

theorem calculateThreshold_insufficient_witness:
  "calculateThreshold
      (flat_sky [Footprint [(1, 1)]]
         [sky_row 1 1, flagged_row, sky_row 2 1, sky_row 3 1, sky_row 4 1, sky_row 5 1])
      default_config 7 None \<lparr>expo = \<lparr>image_array = [Fin 0], mask_array = [0]\<rparr>, events = []\<rparr>
   = (Inr \<lparr>multiplicative = Fin 1, additive = Fin 0\<rparr>,
      \<lparr>expo = \<lparr>image_array = [Fin 0], mask_array = [0]\<rparr>,
       events = [SkyObjectsRun [0] 7, LogWarnInsufficient 5 10]\<rparr>)"
proof -
  let ?fps = "[Footprint [(1, 1)]]"
  let ?rows = "[sky_row 1 1, flagged_row, sky_row 2 1, sky_row 3 1, sky_row 4 1, sky_row 5 1]"
  let ?c = "flat_sky ?fps ?rows"
  let ?e = "\<lparr>image_array = [Fin 0], mask_array = [0]\<rparr>"
  let ?cat = "[\<lparr>getFootprint = Footprint [(1, 1)], centroid = Some (1, 1), coord = Some (1, 1)\<rparr>]"
  have sky: "skyObjects_run ?c 7 (expo \<lparr>expo = ?e, events = []\<rparr>) = (Inr ?fps, ?e)"
    by (simp add: flat_sky_def quiet_def)
  have cat: "setCentroids (pixelToSky ?c) (makeSources ?fps) = Inr ?cat"
    by (simp add: flat_sky_def makeSources_def)
  have meas: "skyMeasurement_run ?c ?cat ?e = (Inr ?rows, ?e)"
    by (simp add: flat_sky_def quiet_def)
  have n: "length (filter good_flag ?rows) = 5"
    by (simp add: good_flag_def sky_row_def flagged_row_def)
  have few: "int (length (filter good_flag ?rows)) < minNumSources default_config"
    by (simp add: n default_config_def)
  show ?thesis
    using calculateThreshold_insufficient [OF sky cat meas few, of None] n
    by (simp add: default_config_def)
qed






section \<open>Properties of detectFootprints\<close>

subsection \<open>The mask around the preliminary pass\<close>


lemma preliminary_pass_unfold:
  "preliminary_pass c cfg p doSmooth seed s =
     (fst (preliminary_body c cfg p doSmooth seed s),
      (snd (preliminary_body c cfg p doSmooth seed s))
        \<lparr>expo := (expo (snd (preliminary_body c cfg p doSmooth seed s)))
                  \<lparr>mask_array := mask_array (expo s)\<rparr>\<rparr>)"
  by (simp add: preliminary_pass_def Let_def split: prod.splits)

lemmas run_defs = detectFootprints_def preliminary_pass_def preliminary_body_def
  preliminary_detect_def calculateThreshold_def background_tweak_def tweakBackground_def
  final_pass_def final_body_def then_do_def call_def emit_def ret_def raise_def
  flat_sky_def bright_sky_def mark_first_def quiet_def clearMask_planes_def no_detections_def
  default_config_def detectFootprints_seed_def py_int_def exact_sum_def makeSources_def
  DETECTED_def DETECTED_NEGATIVE_def detectedBits_def Let_def



lemma calculateThreshold_events:
  "\<exists>rest. events (snd (calculateThreshold c cfg seed sg s))
            = events s @ SkyObjectsRun (mask_array (expo s)) seed # rest
          \<and> list_all (seed_is seed) rest"
  by (auto simp: calculateThreshold_def then_do_def emit_def call_def ret_def raise_def Let_def
      seed_is_def split: prod.splits sum.splits)

lemma preliminary_detect_events:
  "events (snd (preliminary_detect c cfg p d s)) = events s"
  by (auto simp: preliminary_detect_def then_do_def call_def ret_def split: prod.splits sum.splits)

text \<open>
  C4, as the code has it. When the preliminary detection goes through, the mask the
  sky sampler is given is the mask as the preliminary detection left it, with its
  detection planes, and the mask is the copy taken before the phase only once the
  phase is over, after the threshold calculation.
\<close>

theorem sampler_sees_preliminary_mask:
  assumes det: "preliminary_detect c cfg p d s = (Inr cr, s')"
  shows "(\<exists>rest. events (snd (preliminary_pass c cfg p d seed s))
            = events s @ SkyObjectsRun (mask_array (expo s')) seed # rest)
         \<and> mask_array (expo (snd (preliminary_pass c cfg p d seed s))) = mask_array (expo s)"
proof -
  have ev: "events s' = events s"
    using preliminary_detect_events [of c cfg p d s] det by simp
  obtain rest where rest: "events (snd (calculateThreshold c cfg seed (Some (sigma cr)) s'))
            = events s' @ SkyObjectsRun (mask_array (expo s')) seed # rest"
    using calculateThreshold_events by blast
  have "\<exists>rest'. events (snd (preliminary_body c cfg p d seed s))
          = events s @ SkyObjectsRun (mask_array (expo s')) seed # rest'"
    using det rest ev
    by (auto simp: preliminary_body_def then_do_def emit_def ret_def split: prod.splits sum.splits)
  then show ?thesis
    by (simp add: preliminary_pass_unfold)
qed

text \<open>
  A preliminary detection that sets DETECTED on the first pixel, on a mask that arrived
  with DETECTED_NEGATIVE there: the sampler is given the mask with DETECTED, and the
  phase ends with the mask that arrived.
\<close>

theorem sampler_sees_preliminary_mask_witness:
  "(\<exists>rest. events (snd (preliminary_pass (bright_sky [] []) default_config (Psf 2) True 42
                          two_pixels))
            = events two_pixels @ SkyObjectsRun [32, 1] 42 # rest)
   \<and> mask_array (expo (snd (preliminary_pass (bright_sky [] []) default_config (Psf 2) True 42
                               two_pixels))) = [64, 1]"
proof -
  have det: "preliminary_detect (bright_sky [] []) default_config (Psf 2) True two_pixels
      = (Inr \<lparr>middle = [Fin 2.5, Fin 1], sigma = Fin 2\<rparr>,
         \<lparr>expo = \<lparr>image_array = [Fin 2.5, Fin 1], mask_array = [32, 1]\<rparr>, events = []\<rparr>)"
    by (simp add: run_defs two_pixels_def)
  show ?thesis
    using sampler_sees_preliminary_mask [OF det, of 42]
    by (simp add: two_pixels_def)
qed

text \<open>
  In the whole run on that exposure, the detection planes of the mask the sampler is
  given are not those of the mask at the start of the preliminary detection.
\<close>

theorem sampler_mask_differs_from_snapshot:
  "events (snd (detectFootprints (bright_sky [] []) default_config True None True (Some 42)
                  two_pixels))
     = [SkyObjectsRun [32, 1] 42, LogWarnInsufficient 0 10, LogInfoFactor (Fin 1) (Fin 5),
        LogInfoTweak (Fin 0)]
   \<and> detectedBits [32, 1] \<noteq> detectedBits (mask_array (expo two_pixels))"
  by (simp add: run_defs two_pixels_def fsub_def)

subsection \<open>The background offset\<close>

text \<open>
  C6, as the code has it. When \<^verbatim>\<open>doBackgroundTweak\<close> is set, the offset is subtracted
  from every pixel of the image, the run's background list is the one constant term
  of that offset, and the subtraction is logged. When it is not set, the image and the
  log are untouched and the background list is empty: the offset is recorded nowhere.
\<close>

theorem background_tweak_effect:
  "background_tweak cfg bgLevel s =
     (if doBackgroundTweak cfg
      then (Inr [(\<lparr>stats_image = bgLevel, stats_mask = 0, stats_variance = bgLevel\<rparr>,
                  LINEAR, REDUCE_INTERP_ORDER, UNKNOWN, 0, 0, False)],
            s\<lparr>expo := (expo s)\<lparr>image_array := map (\<lambda>v. fsub v bgLevel) (image_array (expo s))\<rparr>,
              events := events s @ [LogInfoTweak bgLevel]\<rparr>)
      else (Inr [], s))"
  by (simp add: background_tweak_def tweakBackground_def Let_def)

text \<open>
  A run without the tweak, on two sky sources of fluxes 0 and 4: the preliminary phase
  finds the offset 2, the image is not changed, and the background list of the result
  is empty.
\<close>

theorem offset_not_recorded_without_tweak:
  "detectFootprints (flat_sky two_peaks [sky_row 0 1, sky_row 4 1])
      (default_config\<lparr>minNumSources := 2, doBackgroundTweak := False\<rparr>) True None True (Some 42)
      two_pixels
   = (Inr (no_detections\<lparr>background := []\<rparr>),
      \<lparr>expo = \<lparr>image_array = [Fin 2.5, Fin 1], mask_array = [0, 1]\<rparr>,
       events = [SkyObjectsRun [0, 1] 42, LogInfoFactor (Fin (500 / 741)) (Fin (2500 / 741))]\<rparr>)
   \<and> fst (preliminary_pass (flat_sky two_peaks [sky_row 0 1, sky_row 4 1])
      (default_config\<lparr>minNumSources := 2, doBackgroundTweak := False\<rparr>) (Psf 2) True 42 two_pixels)
     = Inr \<lparr>multiplicative = Fin (500 / 741), additive = Fin 2\<rparr>"
proof -
  have p: "np_percentile [Fin 0, Fin 4] 25 = Fin 1" "np_percentile [Fin 0, Fin 4] 75 = Fin 3"
    using np_percentile_pair [of 0 4] by simp_all
  show ?thesis
    by (simp add: run_defs two_pixels_def two_peaks_def sky_row_def good_flag_def
        p np_median_pair fsub_def)
qed

subsection \<open>The seed\<close>

lemma appends_onlyI:
  "(\<And>s. \<exists>evs. events (snd (f s)) = events s @ evs \<and> list_all P evs) \<Longrightarrow> appends_only P f"
  by (simp add: appends_only_def)



lemma appends_only_raise: "appends_only P (raise e)"
  by (rule appends_onlyI) (simp add: raise_def)












lemma exact_sum_from: "foldl fadd (Fin a) (map Fin rs) = Fin (a + sum_list rs)"
  by (induction rs arbitrary: a) simp_all

lemma exact_sum_Fin: "exact_sum (map Fin rs) = Fin (sum_list rs)"
  using exact_sum_from [of 0 rs] by (simp add: exact_sum_def)















section \<open>Properties of the conversion utility\<close>

subsection \<open>The new name of a sigma field\<close>

lemma endswith_append: "endswith (p @ suf) suf"
  by (simp add: endswith_def)

lemma py_strip_append_chars:
  assumes "set suf \<subseteq> set chars"
  shows "py_strip (p @ suf) chars = py_strip p chars"
proof (cases "\<forall>ch \<in> set p. ch \<in> set chars")
  case True
  with assms have a: "dropWhile (\<lambda>ch. ch \<in> set chars) (p @ suf) = []"
    and b: "dropWhile (\<lambda>ch. ch \<in> set chars) p = []"
    by (auto simp: dropWhile_eq_Nil_conv)
  show ?thesis by (simp only: py_strip_def a b)
next
  case False
  then have "dropWhile (\<lambda>ch. ch \<in> set chars) (p @ suf)
      = dropWhile (\<lambda>ch. ch \<in> set chars) p @ suf"
    by (auto simp: dropWhile_append1)
  moreover have "dropWhile (\<lambda>ch. ch \<in> set chars) (rev suf @ xs)
      = dropWhile (\<lambda>ch. ch \<in> set chars) xs" for xs
  proof (rule dropWhile_append2)
    fix x assume "x \<in> set (rev suf)"
    with assms show "x \<in> set chars" by auto
  qed
  ultimately show ?thesis by (simp add: py_strip_def)
qed

lemma length_dropWhile_less:
  "xs \<noteq> [] \<Longrightarrow> P (hd xs) \<Longrightarrow> length (dropWhile P xs) < length xs"
  by (cases xs) (simp_all add: le_imp_less_Suc length_dropWhile_le)

lemma py_strip_length: "length (py_strip p chars) \<le> length (dropWhile (\<lambda>ch. ch \<in> set chars) p)"
  using length_dropWhile_le [of "\<lambda>ch. ch \<in> set chars" "rev (dropWhile (\<lambda>ch. ch \<in> set chars) p)"]
  by (simp add: py_strip_def)

lemma py_strip_id_iff:
  "py_strip p chars = p \<longleftrightarrow> p = [] \<or> (hd p \<notin> set chars \<and> last p \<notin> set chars)"
proof (cases "p = []")
  case True
  then show ?thesis by (simp add: py_strip_def)
next
  case ne: False
  show ?thesis
  proof (cases "hd p \<in> set chars")
    case True
    then have "length (py_strip p chars) < length p"
      using py_strip_length [of p chars] length_dropWhile_less [of p "\<lambda>ch. ch \<in> set chars"] ne
      by simp
    with True ne show ?thesis by auto
  next
    case hd: False
    then have d: "dropWhile (\<lambda>ch. ch \<in> set chars) p = p"
      using ne by (cases p) simp_all
    show ?thesis
    proof (cases "last p \<in> set chars")
      case True
      then have "length (dropWhile (\<lambda>ch. ch \<in> set chars) (rev p)) < length (rev p)"
        using ne by (intro length_dropWhile_less) (simp_all add: hd_rev)
      then have "length (py_strip p chars) < length p"
        by (simp add: py_strip_def d)
      with True ne show ?thesis by auto
    next
      case False
      then have "dropWhile (\<lambda>ch. ch \<in> set chars) (rev p) = rev p"
        using ne by (cases "rev p") (simp_all add: hd_rev [symmetric])
      with hd False ne show ?thesis by (simp add: py_strip_def d)
    qed
  qed
qed

text \<open>
  C8. A name that ends in \<^verbatim>\<open>_fluxSigma\<close> is a prefix followed by that suffix. The
  utility's new name is the prefix with every leading and trailing character that
  occurs in \<^verbatim>\<open>_fluxSigma\<close> removed, followed by \<^verbatim>\<open>_fluxErr\<close>; replacing only the
  suffix gives the prefix followed by \<^verbatim>\<open>_fluxErr\<close>. The two names differ exactly when
  the prefix is not empty and begins or ends with a character of \<^verbatim>\<open>_fluxSigma\<close>.
\<close>

theorem new_name_strips_character_set:
  "endswith (p @ ''_fluxSigma'') ''_fluxSigma''
   \<and> new_name (p @ ''_fluxSigma'') = py_strip p ''_fluxSigma'' @ ''_fluxErr''
   \<and> exact_suffix_replacement (p @ ''_fluxSigma'') = p @ ''_fluxErr''
   \<and> (new_name (p @ ''_fluxSigma'') \<noteq> exact_suffix_replacement (p @ ''_fluxSigma'')
        \<longleftrightarrow> p \<noteq> [] \<and> (hd p \<in> set ''_fluxSigma'' \<or> last p \<in> set ''_fluxSigma''))"
proof -
  have n: "new_name (p @ ''_fluxSigma'') = py_strip p ''_fluxSigma'' @ ''_fluxErr''"
    using py_strip_append_chars [of "''_fluxSigma''" "''_fluxSigma''" p]
    by (simp add: new_name_def endswith_append)
  have e: "exact_suffix_replacement (p @ ''_fluxSigma'') = p @ ''_fluxErr''"
    by (simp add: exact_suffix_replacement_def)
  show ?thesis
    using py_strip_id_iff [of p "''_fluxSigma''"]
    unfolding n e by (auto simp: endswith_append)
qed

text \<open>
  The sigma field of the filter \<^verbatim>\<open>g\<close>: the letter is one of the characters stripped, and
  nothing of the prefix is left.
\<close>

theorem new_name_strips_character_set_witness:
  "new_name ''g_fluxSigma'' = ''_fluxErr''
   \<and> exact_suffix_replacement ''g_fluxSigma'' = ''g_fluxErr''
   \<and> new_name ''g_fluxSigma'' \<noteq> exact_suffix_replacement ''g_fluxSigma''"
  using new_name_strips_character_set [of "''g''"]
  by (simp add: py_strip_def)

subsection \<open>The write phase\<close>

lemma map_schema_Inr:
  "map_schema fs out mf = Inr (out', mf') \<Longrightarrow>
     out' = out @ map (\<lambda>f. if is_flux_field (getUnits f) (getName f) (getUnits f)
               then \<lparr>getName = new_name (getName f), getDoc = getDoc f, getUnits = ''nJy''\<rparr>
               else f) fs
     \<and> mf' = mf @ map (\<lambda>f. (getName f, getUnits f))
                (filter (\<lambda>f. is_flux_field (getUnits f) (getName f) (getUnits f)) fs)"
proof (induction fs arbitrary: out mf)
  case Nil
  then show ?case by simp
next
  case (Cons f fs)
  show ?case
  proof (cases "is_flux_field (getUnits f) (getName f) (getUnits f)")
    case True
    with Cons.prems obtain o1 where
      a: "addField out \<lparr>getName = new_name (getName f), getDoc = getDoc f, getUnits = ''nJy''\<rparr>
            = Inr o1"
      and r: "map_schema fs o1 (mf @ [(getName f, getUnits f)]) = Inr (out', mf')"
      by (auto simp: Let_def split: sum.splits)
    from a have "o1 = out @ [\<lparr>getName = new_name (getName f), getDoc = getDoc f, getUnits = ''nJy''\<rparr>]"
      by (auto simp: addField_def split: if_splits)
    with Cons.IH [OF r] True show ?thesis by simp
  next
    case False
    with Cons.prems obtain o1 where
      a: "addField out f = Inr o1"
      and r: "map_schema fs o1 mf = Inr (out', mf')"
      by (auto simp: Let_def split: sum.splits)
    from a have "o1 = out @ [f]"
      by (auto simp: addField_def split: if_splits)
    with Cons.IH [OF r] False show ?thesis by simp
  qed
qed

lemma process_one_write:
  assumes "map_schema (map fst catalog) [] [] = Inr (newSchema, mapped_fluxes)"
    and "mapped_fluxes \<noteq> []"
  shows "process_one filename catalog True =
     Inr ([Reading filename, FoundFluxFields mapped_fluxes, Wrote filename],
          Some (map scale_column (zip newSchema (map snd catalog))))"
  using assms by (simp add: process_one_def Let_def)

text \<open>
  C10. When the loop over the schema has gone through, at least one flux field was
  remapped and the utility is asked to write, it writes a catalog with the columns of
  the input, in which a column is the input column with every value multiplied by
  \<open>10^9\<close> when the name of its output field ends in \<^verbatim>\<open>_flux\<close> or \<^verbatim>\<open>_fluxErr\<close>, and the
  input column otherwise. A field that was not remapped, for one because its units
  failed the units check, is in the output as it was in the input, units included; so a
  column of such a field whose name ends in \<^verbatim>\<open>_flux\<close> or \<^verbatim>\<open>_fluxErr\<close> has its values
  scaled and its units left as they were.
\<close>

theorem write_phase_scales_every_flux_column:
  assumes mapped: "map_schema (map fst catalog) [] [] = Inr (newSchema, mapped_fluxes)"
    and remapped: "mapped_fluxes \<noteq> []"
  shows "\<exists>status out. process_one filename catalog True = Inr (status, Some out)
     \<and> length out = length catalog
     \<and> (\<forall>i < length catalog.
          snd (out ! i) =
            (if endswith (getName (fst (out ! i))) ''_flux''
                \<or> endswith (getName (fst (out ! i))) ''_fluxErr''
             then map (\<lambda>v. fmul v (Fin 1000000000)) (snd (catalog ! i))
             else snd (catalog ! i))
          \<and> (\<not> is_flux_field (getUnits (fst (catalog ! i))) (getName (fst (catalog ! i)))
                  (getUnits (fst (catalog ! i)))
               \<longrightarrow> fst (out ! i) = fst (catalog ! i)))"
proof -
  let ?out = "map scale_column (zip newSchema (map snd catalog))"
  have new: "newSchema = map (\<lambda>f. if is_flux_field (getUnits f) (getName f) (getUnits f)
               then \<lparr>getName = new_name (getName f), getDoc = getDoc f, getUnits = ''nJy''\<rparr>
               else f) (map fst catalog)"
    using map_schema_Inr [OF mapped] by simp
  have len: "length newSchema = length catalog"
    by (simp add: new)
  have col: "snd (?out ! i) =
            (if endswith (getName (fst (?out ! i))) ''_flux''
                \<or> endswith (getName (fst (?out ! i))) ''_fluxErr''
             then map (\<lambda>v. fmul v (Fin 1000000000)) (snd (catalog ! i))
             else snd (catalog ! i))" if "i < length catalog" for i
    using that len by (simp add: scale_column_def Let_def)
  have fld: "fst (?out ! i) = fst (catalog ! i)"
    if "i < length catalog"
      "\<not> is_flux_field (getUnits (fst (catalog ! i))) (getName (fst (catalog ! i)))
                  (getUnits (fst (catalog ! i)))" for i
    using that len by (simp add: scale_column_def Let_def) (simp add: new)
  show ?thesis
    using process_one_write [OF mapped remapped, of filename] len col fld
    by (intro exI [of _ "[Reading filename, FoundFluxFields mapped_fluxes, Wrote filename]"]
        exI [of _ ?out]) simp
qed

text \<open>
  The catalog of the example: the column in units of \<^verbatim>\<open>mJy\<close> fails the units check,
  keeps its units, and is scaled like the column that was remapped.
\<close>

theorem write_phase_scales_every_flux_column_witness:
  "map_schema (map fst old_flux_catalog) [] [] =
      Inr ([\<lparr>getName = ''g_flux'', getDoc = ''g'', getUnits = ''nJy''\<rparr>,
            \<lparr>getName = ''r_flux'', getDoc = ''r'', getUnits = ''mJy''\<rparr>,
            \<lparr>getName = ''coord_ra'', getDoc = ''ra'', getUnits = ''rad''\<rparr>],
           [(''g_flux'', [])])
   \<and> process_one ''cat.fits'' old_flux_catalog True =
       Inr ([Reading ''cat.fits'', FoundFluxFields [(''g_flux'', [])], Wrote ''cat.fits''],
        Some [(\<lparr>getName = ''g_flux'', getDoc = ''g'', getUnits = ''nJy''\<rparr>,
                 [Fin 1000000000, Fin 2000000000]),
              (\<lparr>getName = ''r_flux'', getDoc = ''r'', getUnits = ''mJy''\<rparr>,
                 [Fin 3000000000, Fin 4000000000]),
              (\<lparr>getName = ''coord_ra'', getDoc = ''ra'', getUnits = ''rad''\<rparr>, [Fin 5, Fin 6])])
   \<and> \<not> is_flux_field ''mJy'' ''r_flux'' ''mJy''"
proof -
  have m: "map_schema (map fst old_flux_catalog) [] [] =
      Inr ([\<lparr>getName = ''g_flux'', getDoc = ''g'', getUnits = ''nJy''\<rparr>,
            \<lparr>getName = ''r_flux'', getDoc = ''r'', getUnits = ''mJy''\<rparr>,
            \<lparr>getName = ''coord_ra'', getDoc = ''ra'', getUnits = ''rad''\<rparr>],
           [(''g_flux'', [])])"
    by (simp add: old_flux_catalog_def is_flux_field_def endswith_def new_name_def addField_def
        Let_def)
  have snds: "map snd old_flux_catalog = [[Fin 1, Fin 2], [Fin 3, Fin 4], [Fin 5, Fin 6]]"
    by (simp add: old_flux_catalog_def)
  have r: "\<not> is_flux_field ''mJy'' ''r_flux'' ''mJy''"
    by (simp add: is_flux_field_def)
  have p: "process_one ''cat.fits'' old_flux_catalog True =
       Inr ([Reading ''cat.fits'', FoundFluxFields [(''g_flux'', [])], Wrote ''cat.fits''],
        Some [(\<lparr>getName = ''g_flux'', getDoc = ''g'', getUnits = ''nJy''\<rparr>,
                 [Fin 1000000000, Fin 2000000000]),
              (\<lparr>getName = ''r_flux'', getDoc = ''r'', getUnits = ''mJy''\<rparr>,
                 [Fin 3000000000, Fin 4000000000]),
              (\<lparr>getName = ''coord_ra'', getDoc = ''ra'', getUnits = ''rad''\<rparr>, [Fin 5, Fin 6])])"
    by (simp add: process_one_def m snds scale_column_def endswith_def)
  show ?thesis
    using write_phase_scales_every_flux_column [OF m, of "''cat.fits''"] m r p
    by simp
qed

text \<open>
  When two new names coincide the write phase is never reached: the sigma fields of the
  filters \<^verbatim>\<open>g\<close> and \<^verbatim>\<open>i\<close> are both renamed to \<^verbatim>\<open>_fluxErr\<close>, and the schema refuses the
  second.
\<close>

lemma process_one_repeated_name:
  "process_one ''cat.fits'' sigma_catalog True = Inl (FieldAlreadyPresent ''_fluxErr'')"
  by (simp add: process_one_def sigma_catalog_def is_flux_field_def endswith_def new_name_def
      py_strip_def addField_def Let_def)

end
